theory Spec2Isabelle
  imports Main
begin

section \<open>Shared vocabulary\<close>

text \<open>
  The two page components of the client keep their state in React hooks. Each component
  is embedded as a record of its hook values together with the logs of what it sent to
  its collaborators (remote calls, toast notifications, console lines). A handler is a
  function from the state it finds to the state it leaves; an \<open>async\<close> handler is cut
  at its \<open>await\<close>s into the synchronous segments that run between them, so that the
  segments of two calls can be interleaved.
\<close>

text \<open>
  How the awaits of one remote round trip end. Every round trip of the two pages first
  awaits \<open>getToken()\<close> and then one method of \<open>apiClient\<close> (src/lib/index.ts), which
  throws when the response is not \<open>ok\<close>. A rejection carries the message of the thrown
  \<open>Error\<close>, or \<open>None\<close> when the thrown value is not an \<open>Error\<close>.
\<close>

datatype 'a round_trip =
    TokenRejected "string option"
  | RequestRejected "string option"
  | RequestResolved 'a

datatype setting_value = VNull | VBool bool | VNum int | VStr string

text \<open>
  Modelled from the spec: the declaration of \<open>ProjectSettings\<close> (module \<open>@/types\<close>) is
  not among the sources. The data model calls it a mapping of configuration keys to
  values; a \<open>Partial<ProjectSettings>\<close> is a mapping with some of the keys.
\<close>

type_synonym project_settings = "string \<rightharpoonup> setting_value"

text \<open>
  Calls that leave the client: the identity provider's \<open>getToken\<close> and the methods of
  \<open>apiClient\<close>, each with its endpoint and, where it has one, its body.
\<close>

datatype body = Content string | Settings project_settings

datatype call = GetToken | Get string | Post string body | Put string body

datatype toast = ToastSuccess string | ToastError string

text \<open>What a component hands to its collaborators, in the order it does so.\<close>

record effects =
  calls :: "call list"
  toasts :: "toast list"
  console :: "string list"

text \<open>JavaScript truthiness of a \<open>string | null | undefined\<close>: present and not empty.\<close>

fun truthy :: "string option \<Rightarrow> bool" where
  "truthy None = False"
| "truthy (Some s) = (s \<noteq> [])"

text \<open>\<open>String.prototype.startsWith\<close>.\<close>

definition startsWith :: "string \<Rightarrow> string \<Rightarrow> bool" where
  "startsWith s p = (take (length p) s = p)"

text \<open>
  The decimal rendering that a template literal gives a non-negative integer such as
  \<open>Date.now()\<close> (milliseconds since the epoch).
\<close>

definition digit_char :: "nat \<Rightarrow> char" where
  "digit_char d = ''0123456789'' ! d"

fun toString :: "nat \<Rightarrow> string" where
  "toString n = (if n < 10 then [digit_char n] else toString (n div 10) @ [digit_char (n mod 10)])"

declare toString.simps [simp del]

section \<open>The chat page (\<open>ProjectChatPage\<close>)\<close>

datatype role = User | Assistant

text \<open>
  Modelled from the spec: the declaration of \<open>Message\<close> (module \<open>@/types\<close>) is not among
  the sources. The fields are those of the object literal \<open>optimisticUserMessage\<close>; the
  citation entries are kept as strings.
\<close>

record message =
  id_msg :: string
  chat_id :: string
  content :: string
  role :: role
  clerk_id :: string
  created_at :: string
  citations :: "string list"

text \<open>
  Modelled from the spec: the declaration of \<open>ChatWithMessages\<close> (module \<open>@/types\<close>) is
  not among the sources. The handler reads \<open>id\<close> and \<open>messages\<close>; the other attributes
  are those the data model gives a chat, and the spread \<open>...prev\<close> carries them over.
\<close>

record chat_with_messages =
  id_chat :: string
  project_id :: string
  title :: string
  created_at_chat :: string
  messages :: "message list"

record chat_page = effects +
  currentChatData :: "chat_with_messages option"
  sendMessageError :: "string option"
  isMessageSending :: bool

text \<open>The identifier of the optimistic message: \<open>`temp-${Date.now()}`\<close>.\<close>

definition temp_id :: "nat \<Rightarrow> string" where
  "temp_id now = ''temp-'' @ toString now"

text \<open>The test of the rollback filter: \<open>msg.id.startsWith("temp-")\<close>.\<close>

definition is_temp :: "message \<Rightarrow> bool" where
  "is_temp msg = startsWith (id_msg msg) ''temp-''"

text \<open>
  The object literal \<open>optimisticUserMessage\<close>. \<open>now\<close> is the reading of \<open>Date.now()\<close>
  and \<open>stamp\<close> the string \<open>new Date().toISOString()\<close> returns.
\<close>

definition optimisticUserMessage ::
  "chat_with_messages \<Rightarrow> string \<Rightarrow> string \<Rightarrow> nat \<Rightarrow> string \<Rightarrow> message" where
  "optimisticUserMessage chat uid content' now stamp =
     \<lparr> id_msg = temp_id now, chat_id = id_chat chat, content = content', role = User,
       clerk_id = uid, created_at = stamp, citations = [] \<rparr>"

text \<open>
  \<open>setCurrentChatData((prev) => ...)\<close>: the updater \<open>f\<close> rewrites the message list of
  the chat that is in the store when the update is applied, and leaves a \<open>null\<close> store
  as it is (\<open>if (!prev) return prev\<close>).
\<close>

definition setMessages :: "(message list \<Rightarrow> message list) \<Rightarrow> chat_page \<Rightarrow> chat_page" where
  "setMessages f s =
     (case currentChatData s of
        None \<Rightarrow> s
      | Some prev \<Rightarrow> s\<lparr>currentChatData := Some (prev\<lparr>messages := f (messages prev)\<rparr>)\<rparr>)"

text \<open>
  What a call of \<open>handleSendMessage\<close> keeps in its closure across its \<open>await\<close>s: the
  optimistic message and the endpoint it posts to.
\<close>

record in_flight =
  optimistic :: message
  endpoint :: string

text \<open>
  First segment of \<open>handleSendMessage(content)\<close>, up to \<open>await getToken()\<close>: the two
  resets, the guard, the optimistic append, and the call of \<open>getToken\<close>. The handler is
  taken to run in the render that shows the store it is applied to, so the
  \<open>currentChatData\<close> of its closure is the store's. The result is \<open>None\<close> when the guard
  returned.
\<close>

definition handleSendMessage_begin ::
  "string option \<Rightarrow> string \<Rightarrow> string \<Rightarrow> nat \<Rightarrow> string \<Rightarrow> chat_page
     \<Rightarrow> in_flight option \<times> chat_page" where
  "handleSendMessage_begin userId projectId content' now stamp s =
     (let s1 = s\<lparr>sendMessageError := None, isMessageSending := True\<rparr> in
      case (currentChatData s1, userId) of
        (Some chat, Some uid) \<Rightarrow>
          if uid = [] then
            (None, s1\<lparr>sendMessageError := Some ''Chat or user not found'',
                       isMessageSending := False\<rparr>)
          else
            let msg = optimisticUserMessage chat uid content' now stamp;
                s2 = setMessages (\<lambda>ms. ms @ [msg]) s1
            in (Some \<lparr> optimistic = msg,
                       endpoint = ''/api/chat/'' @ projectId @ ''/chats/'' @ id_chat chat
                                  @ ''/messages/create'' \<rparr>,
                s2\<lparr>calls := calls s2 @ [GetToken]\<rparr>)
      | _ \<Rightarrow>
          (None, s1\<lparr>sendMessageError := Some ''Chat or user not found'',
                     isMessageSending := False\<rparr>))"

text \<open>Second segment: the token has arrived and \<open>apiClient.post\<close> is called with \<open>{ content }\<close>.\<close>

definition handleSendMessage_post :: "in_flight \<Rightarrow> chat_page \<Rightarrow> chat_page" where
  "handleSendMessage_post fl s =
     s\<lparr>calls := calls s @ [Post (endpoint fl) (Content (content (optimistic fl)))]\<rparr>"

text \<open>
  Last segment when the post resolved with \<open>{ userMessage, aiResponse }\<close>: the
  reconciling update, the toast, and the \<open>finally\<close> block.
\<close>

definition handleSendMessage_resolved ::
  "in_flight \<Rightarrow> message \<times> message \<Rightarrow> chat_page \<Rightarrow> chat_page" where
  "handleSendMessage_resolved fl resp s =
     (let s1 = setMessages
                 (\<lambda>ms. filter (\<lambda>msg. id_msg msg \<noteq> id_msg (optimistic fl)) ms
                        @ [fst resp, snd resp]) s;
          s2 = s1\<lparr>toasts := toasts s1 @ [ToastSuccess ''Message sent'']\<rparr>
      in s2\<lparr>isMessageSending := False\<rparr>)"

text \<open>
  Last segment when \<open>getToken\<close> or the post rejected: the \<open>catch\<close> block and the
  \<open>finally\<close> block.
\<close>

definition handleSendMessage_rejected :: "chat_page \<Rightarrow> chat_page" where
  "handleSendMessage_rejected s =
     (let s1 = s\<lparr>sendMessageError := Some ''Failed to send message''\<rparr>;
          s2 = s1\<lparr>toasts := toasts s1 @ [ToastError ''Failed to send message'']\<rparr>;
          s3 = setMessages (filter (\<lambda>msg. \<not> is_temp msg)) s2
      in s3\<lparr>isMessageSending := False\<rparr>)"

text \<open>
  The segments that follow the first one, run one after the other. The response of the
  post is the pair \<open>(userMessage, aiResponse)\<close>; a response that cannot be destructured
  throws inside the \<open>try\<close> and counts as a rejected request.
\<close>

fun handleSendMessage_settle ::
  "in_flight \<Rightarrow> (message \<times> message) round_trip \<Rightarrow> chat_page \<Rightarrow> chat_page" where
  "handleSendMessage_settle fl (TokenRejected e) s = handleSendMessage_rejected s"
| "handleSendMessage_settle fl (RequestRejected e) s =
     handleSendMessage_rejected (handleSendMessage_post fl s)"
| "handleSendMessage_settle fl (RequestResolved resp) s =
     handleSendMessage_resolved fl resp (handleSendMessage_post fl s)"

text \<open>A whole call of \<open>handleSendMessage\<close> that runs alone from start to end.\<close>

definition handleSendMessage ::
  "string option \<Rightarrow> string \<Rightarrow> string \<Rightarrow> nat \<Rightarrow> string \<Rightarrow> (message \<times> message) round_trip
     \<Rightarrow> chat_page \<Rightarrow> chat_page" where
  "handleSendMessage userId projectId content' now stamp outcome s =
     (case handleSendMessage_begin userId projectId content' now stamp s of
        (None, s') \<Rightarrow> s'
      | (Some fl, s') \<Rightarrow> handleSendMessage_settle fl outcome s')"

text \<open>The message sequence the page shows (empty while no chat is loaded).\<close>

definition shown :: "chat_page \<Rightarrow> message list" where
  "shown s = (case currentChatData s of None \<Rightarrow> [] | Some chat \<Rightarrow> messages chat)"

text \<open>
  Calls in flight together. The event loop runs one segment at a time: \<open>Send\<close> is the
  first segment of a new call (content, reading of the clock, time stamp), and
  \<open>Settle i\<close> runs the remaining segments of the \<open>i\<close>-th call that passed its guard
  (counted from 0) with the outcome of its awaits. A session is the page together with
  the closures of the calls that passed their guard, in the order they started.
\<close>

datatype event = Send string nat string | Settle nat "(message \<times> message) round_trip"

record session =
  page :: chat_page
  pending :: "in_flight list"

fun occur :: "string option \<Rightarrow> string \<Rightarrow> session \<Rightarrow> event \<Rightarrow> session" where
  "occur userId projectId ss (Send content' now stamp) =
     (case handleSendMessage_begin userId projectId content' now stamp (page ss) of
        (None, p) \<Rightarrow> ss\<lparr>page := p\<rparr>
      | (Some fl, p) \<Rightarrow> ss\<lparr>page := p, pending := pending ss @ [fl]\<rparr>)"
| "occur userId projectId ss (Settle i outcome) =
     (if i < length (pending ss)
      then ss\<lparr>page := handleSendMessage_settle (pending ss ! i) outcome (page ss)\<rparr>
      else ss)"

definition run :: "string option \<Rightarrow> string \<Rightarrow> event list \<Rightarrow> chat_page \<Rightarrow> session" where
  "run userId projectId evs p = foldl (occur userId projectId) \<lparr> page = p, pending = [] \<rparr> evs"

text \<open>
  A chat as the server delivers it, with two messages that carry durable identifiers,
  and the page that has loaded it.
\<close>

definition durable :: "string \<Rightarrow> role \<Rightarrow> string \<Rightarrow> message" where
  "durable i r txt =
     \<lparr> id_msg = i, chat_id = ''c1'', content = txt, role = r, clerk_id = ''user_1'',
       created_at = ''2024-06-10T06:13:20.000Z'', citations = [] \<rparr>"

definition chat1 :: chat_with_messages where
  "chat1 = \<lparr> id_chat = ''c1'', project_id = ''p1'', title = ''Chat #42'',
             created_at_chat = ''2024-06-10T06:13:00.000Z'',
             messages = [durable ''m1'' User ''hello'', durable ''m2'' Assistant ''hi there''] \<rparr>"

definition page1 :: chat_page where
  "page1 = \<lparr> calls = [], toasts = [], console = [], currentChatData = Some chat1,
             sendMessageError = None, isMessageSending = False \<rparr>"

section \<open>The project page (\<open>ProjectPage\<close>)\<close>

text \<open>
  Modelled from the spec: the declaration of \<open>ProjectDocument\<close> (module \<open>@/types\<close>) is
  not among the sources. The page reads \<open>id\<close> and \<open>processing_status\<close>; the status is
  tested for truthiness before it is compared, so it is a string that may be absent.
\<close>

record project_document =
  id_doc :: string
  source :: string
  processing_status :: "string option"

text \<open>
  The interface \<open>ProjectData\<close>. The declarations of \<open>Project\<close> and \<open>Chat\<close> are not among
  the sources and no handler below looks inside them: they are the parameters \<open>'p\<close> and
  \<open>'c\<close>.
\<close>

record ('p, 'c) project_data =
  project :: "'p option"
  chats :: "'c list"
  documents :: "project_document list"
  settings :: "project_settings option"

text \<open>
  The hooks of \<open>ProjectPage\<close> that the handlers below touch, and the interval timers of
  the polling effect: \<open>timers\<close> are the handles of the intervals that are live,
  \<open>pollInterval\<close> is the handle that the cleanup function of the latest run of the
  effect will clear (none when that run returned early), \<open>next_handle\<close> is the handle
  the next \<open>setInterval\<close> returns.
\<close>

record ('p, 'c) project_page = effects +
  data :: "('p, 'c) project_data"
  loading :: bool
  error :: "string option"
  timers :: "nat list"
  pollInterval :: "nat option"
  next_handle :: nat

text \<open>
  \<open>data.documents.some((doc) => doc.processing_status &&
  !["completed", "failed"].includes(doc.processing_status))\<close>.
\<close>

definition hasProcessingDocuments :: "project_document list \<Rightarrow> bool" where
  "hasProcessingDocuments docs =
     list_ex (\<lambda>doc. case processing_status doc of
                       None \<Rightarrow> False
                     | Some st \<Rightarrow> st \<noteq> [] \<and> st \<notin> set [''completed'', ''failed'']) docs"

text \<open>
  One run of the effect \<open>useEffect(..., [data.documents, projectId, getToken])\<close>: React
  first runs the cleanup the previous run returned (\<open>clearInterval(pollInterval)\<close>), then
  the body, which returns early or sets a new interval. \<open>projectId\<close> and \<open>getToken\<close> are
  taken to keep their identity, so the effect runs when \<open>data.documents\<close> is replaced.
\<close>

definition documents_effect :: "('p, 'c) project_page \<Rightarrow> ('p, 'c) project_page" where
  "documents_effect s =
     (let s1 = (case pollInterval s of
                  None \<Rightarrow> s
                | Some h \<Rightarrow> s\<lparr>timers := removeAll h (timers s), pollInterval := None\<rparr>)
      in if \<not> hasProcessingDocuments (documents (data s1)) then s1
         else s1\<lparr>timers := next_handle s1 # timers s1,
                  pollInterval := Some (next_handle s1),
                  next_handle := Suc (next_handle s1)\<rparr>)"

text \<open>
  \<open>setData((prev) => ({ ...prev, documents: f(prev.documents) }))\<close> followed by the
  effect, which runs because every such updater of the page builds a new array: the
  poll writes \<open>documentsRes.data\<close>, \<open>handleDocumentUpload\<close> appends, \<open>handleUrlAdd\<close>
  prepends, \<open>handleDocumentDelete\<close> filters.
\<close>

definition setDocuments ::
  "(project_document list \<Rightarrow> project_document list) \<Rightarrow> ('p, 'c) project_page
     \<Rightarrow> ('p, 'c) project_page" where
  "setDocuments f s = documents_effect (s\<lparr>data := (data s)\<lparr>documents := f (documents (data s))\<rparr>\<rparr>)"

definition files_endpoint :: "string \<Rightarrow> string" where
  "files_endpoint projectId = ''/api/project/'' @ projectId @ ''/files''"

text \<open>
  The callback of the interval, with the outcome of its awaits: \<open>getToken\<close>, the \<open>get\<close>
  of the project's files, then either the update that replaces the documents or the
  \<open>catch\<close> that writes the console line.
\<close>

fun pollCallback ::
  "string \<Rightarrow> project_document list round_trip \<Rightarrow> ('p, 'c) project_page \<Rightarrow> ('p, 'c) project_page" where
  "pollCallback projectId (TokenRejected e) s =
     s\<lparr>calls := calls s @ [GetToken], console := console s @ [''Polling error:'']\<rparr>"
| "pollCallback projectId (RequestRejected e) s =
     s\<lparr>calls := calls s @ [GetToken, Get (files_endpoint projectId)],
       console := console s @ [''Polling error:'']\<rparr>"
| "pollCallback projectId (RequestResolved docs) s =
     setDocuments (\<lambda>prev. docs)
       (s\<lparr>calls := calls s @ [GetToken, Get (files_endpoint projectId)]\<rparr>)"

text \<open>One period of the timers: the callback runs when an interval is live, and only then.\<close>

definition poll_tick ::
  "string \<Rightarrow> project_document list round_trip \<Rightarrow> ('p, 'c) project_page \<Rightarrow> ('p, 'c) project_page" where
  "poll_tick projectId outcome s = (if timers s = [] then s else pollCallback projectId outcome s)"

text \<open>
  The state of the hooks at the first render: \<open>data.documents\<close> is empty, so the first
  run of the effect returns early.
\<close>

definition mount :: "('p, 'c) project_page" where
  "mount = \<lparr> calls = [], toasts = [], console = [],
             data = \<lparr> project = None, chats = [], documents = [], settings = None \<rparr>,
             loading = True, error = None, timers = [], pollInterval = None, next_handle = 0 \<rparr>"

text \<open>
  \<open>loadProjectData\<close> with the outcome of its awaits (the four \<open>get\<close>s of
  \<open>Promise.all\<close> as one round trip): the bundle replaces \<open>data\<close>, or the error is kept
  and shown.
\<close>

definition loadProjectData ::
  "string option \<Rightarrow> string \<Rightarrow> ('p, 'c) project_data round_trip \<Rightarrow> ('p, 'c) project_page
     \<Rightarrow> ('p, 'c) project_page" where
  "loadProjectData userId projectId outcome s =
     (if \<not> truthy userId then s
      else
        let s1 = s\<lparr>loading := True, error := None, calls := calls s @ [GetToken]\<rparr>;
            gets = [Get (''/api/project/'' @ projectId),
                    Get (''/api/project/'' @ projectId @ ''/chats''),
                    Get (files_endpoint projectId),
                    Get (''/api/project/'' @ projectId @ ''/settings'')];
            failed = (\<lambda>e t. let msg = (case e of Some m \<Rightarrow> m | None \<Rightarrow> ''Failed to fetch data'')
                             in t\<lparr>error := Some msg, toasts := toasts t @ [ToastError msg],
                                  loading := False\<rparr>)
        in case outcome of
             TokenRejected e \<Rightarrow> failed e s1
           | RequestRejected e \<Rightarrow> failed e (s1\<lparr>calls := calls s1 @ gets\<rparr>)
           | RequestResolved loaded \<Rightarrow>
               (documents_effect (s1\<lparr>calls := calls s1 @ gets, data := loaded\<rparr>))\<lparr>loading := False\<rparr>)"

text \<open>
  \<open>handleDraftSettings(updates)\<close>: the spread \<open>{ ...prev.settings, ...updates }\<close> is the
  map \<open>prev.settings\<close> overridden by \<open>updates\<close>. \<open>data.documents\<close> keeps its identity,
  so the polling effect does not run.
\<close>

definition handleDraftSettings ::
  "project_settings \<Rightarrow> ('p, 'c) project_page \<Rightarrow> ('p, 'c) project_page" where
  "handleDraftSettings updates s =
     (let s1 = s\<lparr>console := console s @ [''Update local state with draft settings'']\<rparr>
      in case settings (data s1) of
           Some prev_settings \<Rightarrow>
             s1\<lparr>data := (data s1)\<lparr>settings := Some (prev_settings ++ updates)\<rparr>\<rparr>
         | None \<Rightarrow> s1\<lparr>console := console s1 @ [''No existing settings found to update'']\<rparr>)"

text \<open>
  \<open>handlePublishSettings()\<close> with the outcome of its awaits. The handler is a closure of
  the render that created it, and it reads \<open>userId\<close> and \<open>data.settings\<close> from that
  render, not from the store: \<open>rendered\<close> is that \<open>data.settings\<close>. It is the store's
  \<open>settings (data s)\<close> when the page has rendered since the store last changed, and an
  older value when a draft update has been queued and not yet rendered.
\<close>

definition handlePublishSettings ::
  "string option \<Rightarrow> string \<Rightarrow> project_settings option \<Rightarrow> unit round_trip
     \<Rightarrow> ('p, 'c) project_page \<Rightarrow> ('p, 'c) project_page" where
  "handlePublishSettings userId projectId rendered outcome s =
     (let s1 = s\<lparr>console := console s @ [''Make API call to publish settings'']\<rparr>
      in case rendered of
           None \<Rightarrow> s1
         | Some current \<Rightarrow>
             if \<not> truthy userId then s1
             else
               let put = Put (''/api/project/'' @ projectId @ ''/settings/update'') (Settings current);
                   failed = (\<lambda>e t. let msg = (case e of Some m \<Rightarrow> m
                                                | None \<Rightarrow> ''Failed to publish settings'')
                                    in t\<lparr>error := Some msg, toasts := toasts t @ [ToastError msg]\<rparr>)
               in case outcome of
                    TokenRejected e \<Rightarrow> failed e (s1\<lparr>calls := calls s1 @ [GetToken]\<rparr>)
                  | RequestRejected e \<Rightarrow> failed e (s1\<lparr>calls := calls s1 @ [GetToken, put]\<rparr>)
                  | RequestResolved u \<Rightarrow>
                      s1\<lparr>calls := calls s1 @ [GetToken, put],
                         toasts := toasts s1 @ [ToastSuccess ''Settings published successfully'']\<rparr>)"




text \<open>
  The poller is idle when no interval is live, and polls when exactly one is, the one
  the next cleanup will clear.
\<close>

definition idle :: "('p, 'c) project_page \<Rightarrow> bool" where
  "idle s = (timers s = [] \<and> pollInterval s = None)"

definition polling :: "('p, 'c) project_page \<Rightarrow> bool" where
  "polling s = (case pollInterval s of None \<Rightarrow> False | Some h \<Rightarrow> timers s = [h])"

text \<open>
  The calls one run of the interval's callback makes: \<open>getToken\<close>, and the \<open>get\<close> when
  the token was delivered.
\<close>

fun refresh_calls :: "string \<Rightarrow> 'a round_trip \<Rightarrow> call list" where
  "refresh_calls projectId (TokenRejected e) = [GetToken]"
| "refresh_calls projectId (RequestRejected e) = [GetToken, Get (files_endpoint projectId)]"
| "refresh_calls projectId (RequestResolved x) = [GetToken, Get (files_endpoint projectId)]"



text \<open>
  A project as the server delivers it, with one document still being processed and two
  settings, and the page that has loaded it.
\<close>

definition doc :: "string \<Rightarrow> string option \<Rightarrow> project_document" where
  "doc i st = \<lparr> id_doc = i, source = ''report.pdf'', processing_status = st \<rparr>"

definition settings1 :: project_settings where
  "settings1 = [''chunk_size'' \<mapsto> VNum 512, ''rag_strategy'' \<mapsto> VStr ''basic'']"

definition bundle1 :: "(unit, unit) project_data" where
  "bundle1 = \<lparr> project = Some (), chats = [],
               documents = [doc ''d1'' (Some ''processing'')], settings = Some settings1 \<rparr>"

definition project1 :: "(unit, unit) project_page" where
  "project1 = loadProjectData (Some ''user_1'') ''p1'' (RequestResolved bundle1) mount"


section \<open>Properties of the chat page\<close>

subsection \<open>Identifiers\<close>

lemma digit_char_inj: "a < 10 \<Longrightarrow> b < 10 \<Longrightarrow> digit_char a = digit_char b \<longleftrightarrow> a = b"
  by (simp add: digit_char_def nth_eq_iff_index_eq)

lemma toString_small: "n < 10 \<Longrightarrow> toString n = [digit_char n]"
  by (subst toString.simps) simp

lemma toString_big: "\<not> n < 10 \<Longrightarrow> toString n = toString (n div 10) @ [digit_char (n mod 10)]"
  by (subst toString.simps) simp

lemma toString_nonempty: "toString n \<noteq> []"
  by (subst toString.simps) simp

lemma toString_inj: "toString n = toString m \<Longrightarrow> n = m"
proof (induction n arbitrary: m rule: toString.induct)
  case (1 n)
  show ?case
  proof (cases "n < 10")
    case True
    note n = this
    show ?thesis
    proof (cases "m < 10")
      case True
      with n 1(2) show ?thesis
        by (simp add: toString_small digit_char_inj)
    next
      case False
      with n 1(2) toString_nonempty [of "m div 10"] show ?thesis
        by (simp add: toString_small toString_big [of m])
    qed
  next
    case False
    note n = this
    show ?thesis
    proof (cases "m < 10")
      case True
      with n 1(2) toString_nonempty [of "n div 10"] show ?thesis
        by (simp add: toString_small toString_big [of n])
    next
      case False
      with n 1(2) have e: "toString (n div 10) = toString (m div 10)"
        and d: "digit_char (n mod 10) = digit_char (m mod 10)"
        by (simp_all add: toString_big [of n] toString_big [of m])
      from 1(1) [OF n e] have q: "n div 10 = m div 10" .
      from d have r: "n mod 10 = m mod 10"
        by (simp add: digit_char_inj)
      have "n = n div 10 * 10 + n mod 10"
        by simp
      also have "\<dots> = m div 10 * 10 + m mod 10"
        by (simp only: q r)
      also have "\<dots> = m"
        by simp
      finally show ?thesis .
    qed
  qed
qed

lemma temp_id_inj: "temp_id a = temp_id b \<longleftrightarrow> a = b"
  by (auto simp: temp_id_def dest: toString_inj)

lemma temp_id_prefix: "startsWith (temp_id n) ''temp-''"
  by (simp add: temp_id_def startsWith_def)

lemma is_temp_optimistic: "is_temp (optimisticUserMessage chat uid c now st)"
  by (simp add: is_temp_def optimisticUserMessage_def temp_id_prefix)

lemma id_optimistic: "id_msg (optimisticUserMessage chat uid c now st) = temp_id now"
  by (simp add: optimisticUserMessage_def)

subsection \<open>The segments of \<open>handleSendMessage\<close>\<close>

lemma begin_ok:
  assumes "currentChatData s = Some chat" and "userId = Some uid" and "uid \<noteq> []"
  shows "handleSendMessage_begin userId pid c now st s =
           (Some \<lparr> optimistic = optimisticUserMessage chat uid c now st,
                   endpoint = ''/api/chat/'' @ pid @ ''/chats/'' @ id_chat chat @ ''/messages/create'' \<rparr>,
            s\<lparr>sendMessageError := None, isMessageSending := True,
              currentChatData := Some (chat\<lparr>messages := messages chat @ [optimisticUserMessage chat uid c now st]\<rparr>),
              calls := calls s @ [GetToken]\<rparr>)"
  using assms by (simp add: handleSendMessage_begin_def setMessages_def Let_def)

lemma begin_SomeD:
  assumes "handleSendMessage_begin userId pid c now st s = (Some fl, s')"
  shows "id_msg (optimistic fl) = temp_id now"
    and "is_temp (optimistic fl)"
    and "shown s' = shown s @ [optimistic fl]"
    and "currentChatData s \<noteq> None"
    and "currentChatData s' \<noteq> None"
    and "truthy userId"
proof -
  from assms obtain chat uid where c: "currentChatData s = Some chat"
    and u: "userId = Some uid" "uid \<noteq> []"
    by (auto simp: handleSendMessage_begin_def Let_def split: option.splits if_splits)
  from assms begin_ok [OF c u, of pid c now st]
  have fl: "fl = \<lparr> optimistic = optimisticUserMessage chat uid c now st,
                   endpoint = ''/api/chat/'' @ pid @ ''/chats/'' @ id_chat chat @ ''/messages/create'' \<rparr>"
    and s': "s' = s\<lparr>sendMessageError := None, isMessageSending := True,
              currentChatData := Some (chat\<lparr>messages := messages chat @ [optimisticUserMessage chat uid c now st]\<rparr>),
              calls := calls s @ [GetToken]\<rparr>"
    by simp_all
  show "id_msg (optimistic fl) = temp_id now" by (simp add: fl id_optimistic)
  show "is_temp (optimistic fl)" by (simp add: fl is_temp_optimistic)
  show "shown s' = shown s @ [optimistic fl]" by (simp add: fl s' shown_def c)
  show "currentChatData s \<noteq> None" by (simp add: c)
  show "currentChatData s' \<noteq> None" by (simp add: s')
  show "truthy userId" by (simp add: u)
qed

lemma shown_post: "shown (handleSendMessage_post fl s) = shown s"
  by (simp add: handleSendMessage_post_def shown_def)

lemma loaded_post: "currentChatData (handleSendMessage_post fl s) = currentChatData s"
  by (simp add: handleSendMessage_post_def)

lemma shown_resolved:
  "currentChatData s \<noteq> None \<Longrightarrow>
   shown (handleSendMessage_resolved fl (u, a) s)
     = filter (\<lambda>msg. id_msg msg \<noteq> id_msg (optimistic fl)) (shown s) @ [u, a]"
  by (auto simp: handleSendMessage_resolved_def setMessages_def shown_def Let_def)

lemma loaded_resolved:
  "currentChatData (handleSendMessage_resolved fl resp s) = None \<longleftrightarrow> currentChatData s = None"
  by (simp add: handleSendMessage_resolved_def setMessages_def Let_def split: option.splits)

lemma shown_rejected:
  "shown (handleSendMessage_rejected s) = filter (\<lambda>msg. \<not> is_temp msg) (shown s)"
  by (simp add: handleSendMessage_rejected_def setMessages_def shown_def Let_def split: option.splits)

lemma loaded_rejected:
  "currentChatData (handleSendMessage_rejected s) = None \<longleftrightarrow> currentChatData s = None"
  by (simp add: handleSendMessage_rejected_def setMessages_def Let_def split: option.splits)

lemma filter_no_temp: "\<not> list_ex is_temp ms \<Longrightarrow> filter (\<lambda>msg. \<not> is_temp msg) ms = ms"
  by (induction ms) auto

lemma filter_other_id:
  "\<not> list_ex is_temp ms \<Longrightarrow> filter (\<lambda>msg. id_msg msg \<noteq> temp_id now) ms = ms"
  by (induction ms) (auto simp: is_temp_def temp_id_prefix)

lemma settle_resolved_shown:
  "currentChatData s \<noteq> None \<Longrightarrow>
   shown (handleSendMessage_settle fl (RequestResolved (u, a)) s)
     = filter (\<lambda>msg. id_msg msg \<noteq> id_msg (optimistic fl)) (shown s) @ [u, a]"
  by (simp add: shown_resolved shown_post loaded_post handleSendMessage_settle.simps)

lemma settle_rejected_shown:
  "outcome = TokenRejected e \<or> outcome = RequestRejected e \<Longrightarrow>
   shown (handleSendMessage_settle fl outcome s) = filter (\<lambda>msg. \<not> is_temp msg) (shown s)"
  by (auto simp: shown_rejected shown_post handleSendMessage_settle.simps)

declare handleSendMessage_settle.simps [simp del]

lemma settle_loaded:
  "currentChatData (handleSendMessage_settle fl outcome s) = None \<longleftrightarrow> currentChatData s = None"
  by (cases outcome)
     (simp_all add: loaded_rejected loaded_resolved loaded_post handleSendMessage_settle.simps)

text \<open>
  C1, as the code has it. A call that passed its guard minted the identifier
  \<open>temp_id now\<close>. When its post resolves while a chat is loaded, whatever the store
  holds by then, one update drops every entry that bears this identifier, keeps every
  other entry in its place, and appends the confirmed user message and then the
  assistant reply; no entry with this identifier is left when the two confirmed messages
  do not bear it. For a call that runs alone on a chat without tentative entries, with
  no \<open>temp-\<close> identifier in the response, the sequence afterwards is the one before the
  call followed by the user message and the reply, and holds no tentative entry.
\<close>

theorem sendMessage_reconciliation:
  assumes "handleSendMessage_begin userId projectId content' now stamp s0 = (Some fl, s1)"
      and "currentChatData s \<noteq> None"
  shows "shown (handleSendMessage_resolved fl (u, a) s)
           = filter (\<lambda>msg. id_msg msg \<noteq> temp_id now) (shown s) @ [u, a]
         \<and> (id_msg u \<noteq> temp_id now \<and> id_msg a \<noteq> temp_id now \<longrightarrow>
              \<not> list_ex (\<lambda>msg. id_msg msg = temp_id now) (shown (handleSendMessage_resolved fl (u, a) s)))
         \<and> (\<not> list_ex is_temp (shown s0) \<and> \<not> is_temp u \<and> \<not> is_temp a \<longrightarrow>
              shown (handleSendMessage userId projectId content' now stamp (RequestResolved (u, a)) s0)
                = shown s0 @ [u, a]
              \<and> \<not> list_ex is_temp
                    (shown (handleSendMessage userId projectId content' now stamp (RequestResolved (u, a)) s0)))"
proof -
  note b = begin_SomeD [OF assms(1)]
  have 1: "shown (handleSendMessage_resolved fl (u, a) s)
           = filter (\<lambda>msg. id_msg msg \<noteq> temp_id now) (shown s) @ [u, a]"
    using assms(2) by (simp add: shown_resolved b(1))
  have 2: "\<not> list_ex (\<lambda>msg. id_msg msg = temp_id now) (shown (handleSendMessage_resolved fl (u, a) s))"
    if "id_msg u \<noteq> temp_id now \<and> id_msg a \<noteq> temp_id now"
    using that by (simp add: 1 list_ex_iff)
  have 3: "shown (handleSendMessage userId projectId content' now stamp (RequestResolved (u, a)) s0)
                = shown s0 @ [u, a]"
    if "\<not> list_ex is_temp (shown s0)"
  proof -
    have "shown (handleSendMessage_settle fl (RequestResolved (u, a)) s1)
            = filter (\<lambda>msg. id_msg msg \<noteq> temp_id now) (shown s0 @ [optimistic fl]) @ [u, a]"
      using settle_resolved_shown [OF b(5), of fl u a] by (simp only: b(1) b(3))
    also have "\<dots> = shown s0 @ [u, a]"
      using that by (simp add: filter_other_id b(1))
    finally show ?thesis
      by (simp add: handleSendMessage_def assms(1))
  qed
  have 4: "\<not> list_ex is_temp
                    (shown (handleSendMessage userId projectId content' now stamp (RequestResolved (u, a)) s0))"
    if "\<not> list_ex is_temp (shown s0) \<and> \<not> is_temp u \<and> \<not> is_temp a"
    using that by (simp add: 3)
  from 1 2 3 4 show ?thesis by blast
qed

lemma after_two_sends:
  assumes "currentChatData s0 = Some chat" and "userId = Some uid" and "uid \<noteq> []"
  shows "\<exists>flA flB sB.
           run userId pid [Send cA nowA stA, Send cB nowB stB] s0 = \<lparr> page = sB, pending = [flA, flB] \<rparr>
         \<and> optimistic flA = optimisticUserMessage chat uid cA nowA stA
         \<and> optimistic flB = optimisticUserMessage chat uid cB nowB stB
         \<and> shown sB = messages chat @ [optimistic flA, optimistic flB]
         \<and> currentChatData sB \<noteq> None"
  using assms
  by (simp add: run_def begin_ok shown_def optimisticUserMessage_def)

lemma run_append:
  "run userId pid (evs @ evs') p = foldl (occur userId pid) (run userId pid evs p) evs'"
  by (simp add: run_def)

text \<open>
  C3, as the code has it. Two calls in flight on a chat without tentative entries, the
  responses with durable identifiers. When both succeed, in either order, the chat gains
  the two pairs, four messages, each user message before its reply. When the clock
  readings differ, the reconciliation of one call keeps the other call's tentative entry.
  The rollback of one call removes the tentative entries of both.
\<close>

theorem concurrent_sends:
  assumes "currentChatData s0 = Some chat" and "userId = Some uid" and "uid \<noteq> []"
      and "\<not> list_ex is_temp (messages chat)"
      and "\<not> is_temp uA" and "\<not> is_temp aA" and "\<not> is_temp uB" and "\<not> is_temp aB"
  shows "shown (page (run userId projectId
            [Send cA nowA stA, Send cB nowB stB,
             Settle 0 (RequestResolved (uA, aA)), Settle 1 (RequestResolved (uB, aB))] s0))
           = messages chat @ [uA, aA, uB, aB]
       \<and> shown (page (run userId projectId
            [Send cA nowA stA, Send cB nowB stB,
             Settle 1 (RequestResolved (uB, aB)), Settle 0 (RequestResolved (uA, aA))] s0))
           = messages chat @ [uB, aB, uA, aA]
       \<and> (nowA \<noteq> nowB \<longrightarrow>
            shown (page (run userId projectId
              [Send cA nowA stA, Send cB nowB stB, Settle 0 (RequestResolved (uA, aA))] s0))
             = messages chat @ [optimisticUserMessage chat uid cB nowB stB, uA, aA])
       \<and> (nowA \<noteq> nowB \<longrightarrow>
            shown (page (run userId projectId
              [Send cA nowA stA, Send cB nowB stB, Settle 1 (RequestResolved (uB, aB))] s0))
             = messages chat @ [optimisticUserMessage chat uid cA nowA stA, uB, aB])
       \<and> shown (page (run userId projectId
            [Send cA nowA stA, Send cB nowB stB, Settle 0 (RequestRejected e)] s0))
           = messages chat
       \<and> shown (page (run userId projectId
            [Send cA nowA stA, Send cB nowB stB, Settle 1 (RequestRejected e)] s0))
           = messages chat"
proof -
  let ?two = "[Send cA nowA stA, Send cB nowB stB]"
  from after_two_sends [OF assms(1-3), of projectId cA nowA stA cB nowB stB]
  obtain flA flB sB where
    two: "run userId projectId ?two s0 = \<lparr> page = sB, pending = [flA, flB] \<rparr>"
    and tA: "optimistic flA = optimisticUserMessage chat uid cA nowA stA"
    and tB: "optimistic flB = optimisticUserMessage chat uid cB nowB stB"
    and sB: "shown sB = messages chat @ [optimistic flA, optimistic flB]"
    and loaded: "currentChatData sB \<noteq> None"
    by blast
  have idA: "id_msg (optimistic flA) = temp_id nowA" and idB: "id_msg (optimistic flB) = temp_id nowB"
    by (simp_all add: tA tB id_optimistic)
  have tempA: "is_temp (optimistic flA)" and tempB: "is_temp (optimistic flB)"
    by (simp_all add: tA tB is_temp_optimistic)
  note keep = filter_other_id [OF assms(4)] filter_no_temp [OF assms(4)]
  have dur: "id_msg uA \<noteq> temp_id n" "id_msg aA \<noteq> temp_id n"
            "id_msg uB \<noteq> temp_id n" "id_msg aB \<noteq> temp_id n" for n
    using assms(5-8) temp_id_prefix [of n] by (auto simp: is_temp_def)
  have then_ev: "run userId projectId (?two @ evs) s0
      = foldl (occur userId projectId) \<lparr> page = sB, pending = [flA, flB] \<rparr> evs" for evs
    by (simp only: run_append two)
  have A: "shown (handleSendMessage_settle flA (RequestResolved (uA, aA)) sB)
      = messages chat @ (if nowA = nowB then [] else [optimistic flB]) @ [uA, aA]"
    by (simp add: settle_resolved_shown [OF loaded] sB idA idB keep temp_id_inj)
  have B: "shown (handleSendMessage_settle flB (RequestResolved (uB, aB)) sB)
      = messages chat @ (if nowA = nowB then [] else [optimistic flA]) @ [uB, aB]"
    by (simp add: settle_resolved_shown [OF loaded] sB idA idB keep temp_id_inj)
  have lA: "currentChatData (handleSendMessage_settle flA (RequestResolved (uA, aA)) sB) \<noteq> None"
    and lB: "currentChatData (handleSendMessage_settle flB (RequestResolved (uB, aB)) sB) \<noteq> None"
    using loaded by (simp_all only: settle_loaded not_False_eq_True)
  have AB: "shown (handleSendMessage_settle flB (RequestResolved (uB, aB))
                (handleSendMessage_settle flA (RequestResolved (uA, aA)) sB))
      = messages chat @ [uA, aA, uB, aB]"
    by (simp add: settle_resolved_shown [OF lA] A idA idB keep temp_id_inj dur)
  have BA: "shown (handleSendMessage_settle flA (RequestResolved (uA, aA))
                (handleSendMessage_settle flB (RequestResolved (uB, aB)) sB))
      = messages chat @ [uB, aB, uA, aA]"
    by (simp add: settle_resolved_shown [OF lB] B idA idB keep temp_id_inj dur)
  have R: "shown (handleSendMessage_settle fl (RequestRejected e) sB) = messages chat" for fl
    by (simp add: settle_rejected_shown [of _ e] sB keep tempA tempB)
  have 1: "run userId projectId
            [Send cA nowA stA, Send cB nowB stB,
             Settle 0 (RequestResolved (uA, aA)), Settle 1 (RequestResolved (uB, aB))] s0
     = \<lparr> page = handleSendMessage_settle flB (RequestResolved (uB, aB))
                (handleSendMessage_settle flA (RequestResolved (uA, aA)) sB),
         pending = [flA, flB] \<rparr>"
    using then_ev [of "[Settle 0 (RequestResolved (uA, aA)), Settle 1 (RequestResolved (uB, aB))]"]
    by simp
  have 2: "run userId projectId
            [Send cA nowA stA, Send cB nowB stB,
             Settle 1 (RequestResolved (uB, aB)), Settle 0 (RequestResolved (uA, aA))] s0
     = \<lparr> page = handleSendMessage_settle flA (RequestResolved (uA, aA))
                (handleSendMessage_settle flB (RequestResolved (uB, aB)) sB),
         pending = [flA, flB] \<rparr>"
    using then_ev [of "[Settle 1 (RequestResolved (uB, aB)), Settle 0 (RequestResolved (uA, aA))]"]
    by simp
  have 3: "run userId projectId [Send cA nowA stA, Send cB nowB stB, Settle 0 outcome] s0
     = \<lparr> page = handleSendMessage_settle flA outcome sB, pending = [flA, flB] \<rparr>" for outcome
    using then_ev [of "[Settle 0 outcome]"] by simp
  have 4: "run userId projectId [Send cA nowA stA, Send cB nowB stB, Settle 1 outcome] s0
     = \<lparr> page = handleSendMessage_settle flB outcome sB, pending = [flA, flB] \<rparr>" for outcome
    using then_ev [of "[Settle 1 outcome]"] by simp
  show ?thesis
    by (simp only: 1 2 3 4 session.simps AB BA A B R tA tB) simp
qed

lemma page1_chat: "currentChatData page1 = Some chat1"
  by (simp add: page1_def)

lemma shown_page1: "shown page1 = messages chat1"
  by (simp add: shown_def page1_chat)

lemma not_temp_durable: "is_temp (durable i r txt) = startsWith i ''temp-''"
  by (simp add: is_temp_def durable_def)

lemma chat1_no_temp: "\<not> list_ex is_temp (messages chat1)"
  by (simp add: chat1_def not_temp_durable startsWith_def)

lemma page1_no_temp: "\<not> list_ex is_temp (shown page1)"
  by (simp add: shown_page1 chat1_no_temp)

text \<open>The loaded chat \<open>chat1\<close>, one call, resolved with the messages \<open>m3\<close> and \<open>m4\<close>.\<close>

theorem sendMessage_reconciliation_witness:
  "\<not> list_ex is_temp (shown page1)
   \<and> shown (handleSendMessage (Some ''user_1'') ''p1'' ''first'' 1718000000000 ''2024-06-10T06:13:20.000Z''
        (RequestResolved (durable ''m3'' User ''first'', durable ''m4'' Assistant ''reply'')) page1)
      = shown page1 @ [durable ''m3'' User ''first'', durable ''m4'' Assistant ''reply'']"
proof -
  obtain fl s1 where
    A: "handleSendMessage_begin (Some ''user_1'') ''p1'' ''first'' 1718000000000
          ''2024-06-10T06:13:20.000Z'' page1 = (Some fl, s1)"
    using begin_ok [OF page1_chat refl, of "''user_1''"] by simp
  have B: "currentChatData page1 \<noteq> None"
    by (simp add: page1_chat)
  from sendMessage_reconciliation [OF A B, of "durable ''m3'' User ''first''" "durable ''m4'' Assistant ''reply''"]
  show ?thesis
    by (simp add: page1_no_temp not_temp_durable startsWith_def)
qed

text \<open>
  C1 as stated fails when a second call is in flight: after the first call's
  reconciliation the sequence still holds the second call's tentative entry.
\<close>

theorem sendMessage_reconciliation_counterexample:
  "map id_msg (shown (page (run (Some ''user_1'') ''p1''
      [Send ''first'' 1718000000000 ''2024-06-10T06:13:20.000Z'',
       Send ''second'' 1718000000001 ''2024-06-10T06:13:20.001Z'',
       Settle 0 (RequestResolved (durable ''m3'' User ''first'', durable ''m4'' Assistant ''reply''))]
      page1)))
     = [''m1'', ''m2'', ''temp-1718000000001'', ''m3'', ''m4'']
   \<and> list_ex is_temp (shown (page (run (Some ''user_1'') ''p1''
      [Send ''first'' 1718000000000 ''2024-06-10T06:13:20.000Z'',
       Send ''second'' 1718000000001 ''2024-06-10T06:13:20.001Z'',
       Settle 0 (RequestResolved (durable ''m3'' User ''first'', durable ''m4'' Assistant ''reply''))]
      page1)))"
  by (simp add: run_def begin_ok [of _ _ _ "''user_1''"] page1_def chat1_def
        handleSendMessage_settle.simps handleSendMessage_post_def handleSendMessage_resolved_def
        setMessages_def shown_def optimisticUserMessage_def durable_def is_temp_def startsWith_def
        temp_id_def toString_small toString_big digit_char_def)

lemma settle_rejected_fields:
  assumes "outcome = TokenRejected e \<or> outcome = RequestRejected e"
  shows "sendMessageError (handleSendMessage_settle fl outcome s) = Some ''Failed to send message''"
    and "toasts (handleSendMessage_settle fl outcome s) = toasts s @ [ToastError ''Failed to send message'']"
    and "isMessageSending (handleSendMessage_settle fl outcome s) = False"
  using assms
  by (auto simp: handleSendMessage_settle.simps handleSendMessage_rejected_def
        handleSendMessage_post_def setMessages_def Let_def split: option.splits)

text \<open>
  C2, as the code has it. A call that fails at \<open>getToken\<close> or at the post, whatever the
  store \<open>s\<close> holds when the failure is handled: the rollback drops every entry whose
  identifier starts with \<open>temp-\<close> from the sequence the chat has then and keeps all other
  entries in their place, so no tentative entry is left; it sets the error
  \<open>Failed to send message\<close>, shows the error toast and clears the sending flag. For a
  call that passed its guard and runs alone from \<open>s0\<close>, the chat afterwards is the chat
  before the call with every tentative entry removed and all else as before, so exactly
  the chat before the call when that held no tentative entry.
\<close>

theorem sendMessage_rollback:
  assumes "currentChatData s0 = Some chat" and "truthy userId"
      and "outcome = TokenRejected e \<or> outcome = RequestRejected e"
  shows "currentChatData (handleSendMessage userId projectId content' now stamp outcome s0)
           = Some (chat\<lparr>messages := filter (\<lambda>msg. \<not> is_temp msg) (messages chat)\<rparr>)
       \<and> \<not> list_ex is_temp (shown (handleSendMessage userId projectId content' now stamp outcome s0))
       \<and> (\<not> list_ex is_temp (messages chat) \<longrightarrow>
            currentChatData (handleSendMessage userId projectId content' now stamp outcome s0)
              = currentChatData s0)
       \<and> sendMessageError (handleSendMessage userId projectId content' now stamp outcome s0)
           = Some ''Failed to send message''
       \<and> toasts (handleSendMessage userId projectId content' now stamp outcome s0)
           = toasts s0 @ [ToastError ''Failed to send message'']
       \<and> isMessageSending (handleSendMessage userId projectId content' now stamp outcome s0) = False
       \<and> shown (handleSendMessage_settle fl outcome s) = filter (\<lambda>msg. \<not> is_temp msg) (shown s)
       \<and> \<not> list_ex is_temp (shown (handleSendMessage_settle fl outcome s))
       \<and> sendMessageError (handleSendMessage_settle fl outcome s) = Some ''Failed to send message''
       \<and> toasts (handleSendMessage_settle fl outcome s)
           = toasts s @ [ToastError ''Failed to send message'']
       \<and> isMessageSending (handleSendMessage_settle fl outcome s) = False"
proof -
  from assms(2) obtain uid where uid: "userId = Some uid" "uid \<noteq> []"
    by (cases userId) auto
  let ?t = "optimisticUserMessage chat uid content' now stamp"
  let ?r = "handleSendMessage userId projectId content' now stamp outcome s0"
  have r: "?r = handleSendMessage_rejected
                  (if outcome = TokenRejected e then snd (handleSendMessage_begin userId projectId content' now stamp s0)
                   else handleSendMessage_post (the (fst (handleSendMessage_begin userId projectId content' now stamp s0)))
                          (snd (handleSendMessage_begin userId projectId content' now stamp s0)))"
    using assms(3)
    by (auto simp: handleSendMessage_def begin_ok [OF assms(1) uid] handleSendMessage_settle.simps)
  have chat: "currentChatData ?r = Some (chat\<lparr>messages := filter (\<lambda>msg. \<not> is_temp msg) (messages chat)\<rparr>)"
    by (simp add: r begin_ok [OF assms(1) uid] handleSendMessage_rejected_def
          handleSendMessage_post_def setMessages_def is_temp_optimistic)
  have none: "\<not> list_ex is_temp (shown ?r)"
    by (simp add: shown_def chat list_ex_iff)
  have same: "currentChatData ?r = currentChatData s0" if "\<not> list_ex is_temp (messages chat)"
    by (simp add: chat filter_no_temp [OF that] assms(1))
  have err: "sendMessageError ?r = Some ''Failed to send message''"
    and sending: "isMessageSending ?r = False"
    and toast: "toasts ?r = toasts s0 @ [ToastError ''Failed to send message'']"
    by (simp_all add: r begin_ok [OF assms(1) uid] handleSendMessage_rejected_def
          handleSendMessage_post_def setMessages_def)
  have alone: "currentChatData ?r
           = Some (chat\<lparr>messages := filter (\<lambda>msg. \<not> is_temp msg) (messages chat)\<rparr>)
       \<and> \<not> list_ex is_temp (shown ?r)
       \<and> (\<not> list_ex is_temp (messages chat) \<longrightarrow> currentChatData ?r = currentChatData s0)
       \<and> sendMessageError ?r = Some ''Failed to send message''
       \<and> toasts ?r = toasts s0 @ [ToastError ''Failed to send message'']
       \<and> isMessageSending ?r = False"
    using chat none same err sending toast by blast
  have any: "shown (handleSendMessage_settle fl outcome s)
      = filter (\<lambda>msg. \<not> is_temp msg) (shown s)"
    using assms(3) by (rule settle_rejected_shown)
  then have left: "\<not> list_ex is_temp (shown (handleSendMessage_settle fl outcome s))"
    by (simp add: list_ex_iff)
  from alone any left settle_rejected_fields [OF assms(3), of fl s] show ?thesis
    by blast
qed

text \<open>The loaded chat \<open>chat1\<close>, one call, the post answered with status 500.\<close>

theorem sendMessage_rollback_witness:
  "currentChatData page1 = Some chat1 \<and> truthy (Some ''user_1'')
   \<and> currentChatData (handleSendMessage (Some ''user_1'') ''p1'' ''first'' 1718000000000
        ''2024-06-10T06:13:20.000Z'' (RequestRejected (Some ''HTTP error! status: 500'')) page1)
      = currentChatData page1
   \<and> sendMessageError (handleSendMessage (Some ''user_1'') ''p1'' ''first'' 1718000000000
        ''2024-06-10T06:13:20.000Z'' (RequestRejected (Some ''HTTP error! status: 500'')) page1)
      = Some ''Failed to send message''
   \<and> shown (handleSendMessage_settle
               \<lparr> optimistic = optimisticUserMessage chat1 ''user_1'' ''first'' 1718000000000
                                ''2024-06-10T06:13:20.000Z'',
                 endpoint = ''/api/chat/p1/chats/c1/messages/create'' \<rparr>
               (RequestRejected (Some ''HTTP error! status: 500'')) page1)
      = messages chat1"
  using sendMessage_rollback [of page1 chat1 "Some ''user_1''"
          "RequestRejected (Some ''HTTP error! status: 500'')" "Some ''HTTP error! status: 500''"
          "''p1''" "''first''" 1718000000000 "''2024-06-10T06:13:20.000Z''"
          "\<lparr> optimistic = optimisticUserMessage chat1 ''user_1'' ''first'' 1718000000000
                           ''2024-06-10T06:13:20.000Z'',
             endpoint = ''/api/chat/p1/chats/c1/messages/create'' \<rparr>" page1]
    chat1_no_temp
  by (simp add: page1_chat shown_page1 filter_no_temp)

text \<open>
  C2 as stated fails when the call starts while another is in flight: the sequence
  before the second call held the first call's tentative entry, and the second call's
  rollback removes it.
\<close>

theorem sendMessage_rollback_counterexample:
  "map id_msg (shown (page (run (Some ''user_1'') ''p1''
      [Send ''first'' 1718000000000 ''2024-06-10T06:13:20.000Z''] page1)))
     = [''m1'', ''m2'', ''temp-1718000000000'']
   \<and> map id_msg (shown (page (run (Some ''user_1'') ''p1''
      [Send ''first'' 1718000000000 ''2024-06-10T06:13:20.000Z'',
       Send ''second'' 1718000000001 ''2024-06-10T06:13:20.001Z'',
       Settle 1 (RequestRejected (Some ''HTTP error! status: 500''))] page1)))
     = [''m1'', ''m2'']"
  by (simp add: run_def begin_ok [of _ _ _ "''user_1''"] page1_def chat1_def
        handleSendMessage_settle.simps handleSendMessage_post_def handleSendMessage_rejected_def
        setMessages_def shown_def optimisticUserMessage_def durable_def is_temp_def startsWith_def
        temp_id_def toString_small toString_big digit_char_def)

text \<open>Two calls one millisecond apart on \<open>chat1\<close>; the second is answered first.\<close>

theorem concurrent_sends_witness:
  "currentChatData page1 = Some chat1 \<and> \<not> list_ex is_temp (messages chat1)
   \<and> shown (page (run (Some ''user_1'') ''p1''
        [Send ''first'' 1718000000000 ''2024-06-10T06:13:20.000Z'',
         Send ''second'' 1718000000001 ''2024-06-10T06:13:20.001Z'',
         Settle 1 (RequestResolved (durable ''m5'' User ''second'', durable ''m6'' Assistant ''reply 2'')),
         Settle 0 (RequestResolved (durable ''m3'' User ''first'', durable ''m4'' Assistant ''reply 1''))]
        page1))
      = messages chat1 @ [durable ''m5'' User ''second'', durable ''m6'' Assistant ''reply 2'',
                          durable ''m3'' User ''first'', durable ''m4'' Assistant ''reply 1'']"
  using concurrent_sends [of page1 chat1 "Some ''user_1''" "''user_1''"
          "durable ''m3'' User ''first''" "durable ''m4'' Assistant ''reply 1''"
          "durable ''m5'' User ''second''" "durable ''m6'' Assistant ''reply 2''"
          "''p1''" "''first''" 1718000000000 "''2024-06-10T06:13:20.000Z''"
          "''second''" 1718000000001 "''2024-06-10T06:13:20.001Z''" None]
    chat1_no_temp
  by (simp add: page1_chat not_temp_durable startsWith_def)

text \<open>
  C3 as stated fails when one of the two calls fails: the rollback of the first call
  removes the tentative entry the second call minted.
\<close>

theorem concurrent_sends_counterexample:
  "map id_msg (shown (page (run (Some ''user_1'') ''p1''
      [Send ''first'' 1718000000000 ''2024-06-10T06:13:20.000Z'',
       Send ''second'' 1718000000001 ''2024-06-10T06:13:20.001Z''] page1)))
     = [''m1'', ''m2'', ''temp-1718000000000'', ''temp-1718000000001'']
   \<and> map id_msg (shown (page (run (Some ''user_1'') ''p1''
      [Send ''first'' 1718000000000 ''2024-06-10T06:13:20.000Z'',
       Send ''second'' 1718000000001 ''2024-06-10T06:13:20.001Z'',
       Settle 0 (RequestRejected (Some ''HTTP error! status: 500''))] page1)))
     = [''m1'', ''m2'']"
  by (simp add: run_def begin_ok [of _ _ _ "''user_1''"] page1_def chat1_def
        handleSendMessage_settle.simps handleSendMessage_post_def handleSendMessage_rejected_def
        setMessages_def shown_def optimisticUserMessage_def durable_def is_temp_def startsWith_def
        temp_id_def toString_small toString_big digit_char_def)

text \<open>
  C9, as the code has it. The optimistic message of a call that passed its guard bears
  the identifier \<open>temp-\<close> followed by the clock reading, so it carries the prefix; the
  identifiers of two calls are equal exactly when their clock readings are equal; the
  identifier differs from every identifier that does not start with \<open>temp-\<close>. The prefix
  is all the client looks at: a message whose identifier starts with \<open>temp-\<close>, whoever
  named it, counts as tentative and is not in the sequence after a rollback.
\<close>

theorem tentative_identifiers:
  assumes "currentChatData s = Some chat" and "userId = Some uid" and "uid \<noteq> []"
  shows "map_option optimistic (fst (handleSendMessage_begin userId projectId content' now stamp s))
           = Some (optimisticUserMessage chat uid content' now stamp)
       \<and> is_temp (optimisticUserMessage chat uid content' now stamp)
       \<and> (id_msg (optimisticUserMessage chat uid content' now stamp)
            = id_msg (optimisticUserMessage chat2 uid2 content2 now2 stamp2)) = (now = now2)
       \<and> (\<not> startsWith i ''temp-'' \<longrightarrow>
            id_msg (optimisticUserMessage chat uid content' now stamp) \<noteq> i)
       \<and> (startsWith (id_msg msg) ''temp-'' \<longrightarrow>
            is_temp msg \<and> msg \<notin> set (shown (handleSendMessage_rejected s')))"
proof -
  have "id_msg (optimisticUserMessage chat uid content' now stamp) \<noteq> i"
    if "\<not> startsWith i ''temp-''"
    using that temp_id_prefix [of now] by (auto simp: id_optimistic)
  moreover have "is_temp msg \<and> msg \<notin> set (shown (handleSendMessage_rejected s'))"
    if "startsWith (id_msg msg) ''temp-''"
    using that by (simp add: is_temp_def shown_rejected)
  ultimately show ?thesis
    using assms by (simp add: begin_ok is_temp_optimistic id_optimistic temp_id_inj)
qed

text \<open>
  Two calls one millisecond apart mint different identifiers, and neither is the durable
  identifier \<open>m1\<close>.
\<close>

theorem tentative_identifiers_witness:
  "currentChatData page1 = Some chat1
   \<and> map_option optimistic (fst (handleSendMessage_begin (Some ''user_1'') ''p1'' ''first''
         1718000000000 ''2024-06-10T06:13:20.000Z'' page1))
      = Some (optimisticUserMessage chat1 ''user_1'' ''first'' 1718000000000 ''2024-06-10T06:13:20.000Z'')
   \<and> id_msg (optimisticUserMessage chat1 ''user_1'' ''first'' 1718000000000 ''2024-06-10T06:13:20.000Z'')
      \<noteq> id_msg (optimisticUserMessage chat1 ''user_1'' ''second'' 1718000000001 ''2024-06-10T06:13:20.001Z'')
   \<and> \<not> startsWith ''m1'' ''temp-''
   \<and> id_msg (optimisticUserMessage chat1 ''user_1'' ''first'' 1718000000000 ''2024-06-10T06:13:20.000Z'')
      \<noteq> ''m1''
   \<and> startsWith (id_msg (durable ''temp-old'' Assistant ''an older answer'')) ''temp-''
   \<and> durable ''temp-old'' Assistant ''an older answer'' \<notin> set (shown (handleSendMessage_rejected page1))"
  using tentative_identifiers [of page1 chat1 "Some ''user_1''" "''user_1''" "''p1''" "''first''"
          1718000000000 "''2024-06-10T06:13:20.000Z''" chat1 "''user_1''" "''second''"
          1718000000001 "''2024-06-10T06:13:20.001Z''" "''m1''"
          "durable ''temp-old'' Assistant ''an older answer''" page1]
  by (simp add: page1_chat startsWith_def durable_def)

text \<open>
  C9 as stated fails twice. Two calls that read the same millisecond are both in flight
  and both minted \<open>temp-1718000000000\<close>. And the prefix does not tell a tentative
  identifier from every durable one: a chat that the server delivers with a message named
  \<open>temp-old\<close> loses that message in the rollback of a failed call.
\<close>

theorem tentative_identifiers_counterexample:
  "map (\<lambda>fl. (content (optimistic fl), id_msg (optimistic fl)))
     (pending (run (Some ''user_1'') ''p1''
        [Send ''first'' 1718000000000 ''2024-06-10T06:13:20.000Z'',
         Send ''second'' 1718000000000 ''2024-06-10T06:13:20.000Z''] page1))
     = [(''first'', ''temp-1718000000000''), (''second'', ''temp-1718000000000'')]
   \<and> map id_msg (shown (page1\<lparr>currentChatData :=
         Some (chat1\<lparr>messages := messages chat1 @ [durable ''temp-old'' Assistant ''an older answer'']\<rparr>)\<rparr>))
     = [''m1'', ''m2'', ''temp-old'']
   \<and> map id_msg (shown (handleSendMessage (Some ''user_1'') ''p1'' ''first'' 1718000000000
         ''2024-06-10T06:13:20.000Z'' (RequestRejected (Some ''HTTP error! status: 500''))
         (page1\<lparr>currentChatData :=
            Some (chat1\<lparr>messages := messages chat1 @ [durable ''temp-old'' Assistant ''an older answer'']\<rparr>)\<rparr>)))
     = [''m1'', ''m2'']"
  by (simp add: run_def begin_ok [of _ _ _ "''user_1''"] page1_def chat1_def
        handleSendMessage_def handleSendMessage_settle.simps handleSendMessage_post_def
        handleSendMessage_rejected_def setMessages_def shown_def
        optimisticUserMessage_def durable_def is_temp_def startsWith_def
        temp_id_def toString_small toString_big digit_char_def)

text \<open>
  C5. A call of \<open>handleSendMessage\<close> made while no chat is loaded, or while the actor
  identity is missing, ends in its first segment: it leaves the error
  \<open>Chat or user not found\<close>, clears the sending flag, keeps the store's chat (and so its
  message sequence) as it was, and sends nothing to any collaborator.
\<close>

theorem sendMessage_guard:
  assumes "currentChatData s = None \<or> \<not> truthy userId"
  shows "handleSendMessage userId projectId content' now stamp outcome s
           = s\<lparr>sendMessageError := Some ''Chat or user not found'', isMessageSending := False\<rparr>
         \<and> currentChatData (handleSendMessage userId projectId content' now stamp outcome s)
             = currentChatData s
         \<and> calls (handleSendMessage userId projectId content' now stamp outcome s) = calls s
         \<and> toasts (handleSendMessage userId projectId content' now stamp outcome s) = toasts s"
  using assms
  by (cases userId)
     (auto simp: handleSendMessage_def handleSendMessage_begin_def Let_def
           split: option.splits)

text \<open>A call without actor identity on a loaded chat, and a call with no chat loaded.\<close>

theorem sendMessage_guard_witness:
  "\<not> truthy None
   \<and> handleSendMessage None ''p1'' ''first'' 1718000000000 ''2024-06-10T06:13:20.000Z''
        (RequestResolved (durable ''m3'' User ''first'', durable ''m4'' Assistant ''reply'')) page1
      = page1\<lparr>sendMessageError := Some ''Chat or user not found'', isMessageSending := False\<rparr>
   \<and> currentChatData (page1\<lparr>currentChatData := None\<rparr>) = None
   \<and> shown (handleSendMessage (Some ''user_1'') ''p1'' ''first'' 1718000000000 ''2024-06-10T06:13:20.000Z''
        (RequestResolved (durable ''m3'' User ''first'', durable ''m4'' Assistant ''reply''))
        (page1\<lparr>currentChatData := None\<rparr>)) = []"
  using sendMessage_guard [of page1 None "''p1''" "''first''" 1718000000000 "''2024-06-10T06:13:20.000Z''"
          "RequestResolved (durable ''m3'' User ''first'', durable ''m4'' Assistant ''reply'')"]
        sendMessage_guard [of "page1\<lparr>currentChatData := None\<rparr>" "Some ''user_1''" "''p1''" "''first''"
          1718000000000 "''2024-06-10T06:13:20.000Z''"
          "RequestResolved (durable ''m3'' User ''first'', durable ''m4'' Assistant ''reply'')"]
  by (simp add: shown_def)

section \<open>Properties of the project page\<close>

subsection \<open>The polling effect\<close>



lemma documents_effect_effects:
  "calls (documents_effect s) = calls s"
  "toasts (documents_effect s) = toasts s"
  "console (documents_effect s) = console s"
  "error (documents_effect s) = error s"
  by (simp_all add: documents_effect_def Let_def split: option.splits)













lemma polling_tick: "polling s \<Longrightarrow> poll_tick pid outcome s = pollCallback pid outcome s"
  by (auto simp: polling_def poll_tick_def split: option.splits)

lemma pollCallback_calls: "calls (pollCallback pid outcome s) = calls s @ refresh_calls pid outcome"
  by (cases outcome) (simp_all add: setDocuments_def documents_effect_effects)



lemma project1_eq:
  "project1 = \<lparr> calls = [GetToken, Get ''/api/project/p1'', Get ''/api/project/p1/chats'',
                         Get ''/api/project/p1/files'', Get ''/api/project/p1/settings''],
                toasts = [], console = [], data = bundle1, loading = False, error = None,
                timers = [0], pollInterval = Some 0, next_handle = Suc 0 \<rparr>"
  by (simp add: project1_def loadProjectData_def mount_def documents_effect_def bundle1_def
        hasProcessingDocuments_def doc_def files_endpoint_def Let_def)




text \<open>
  C8. A tick of the polling poller whose refresh fails, at \<open>getToken\<close> or at the \<open>get\<close>,
  leaves \<open>data\<close> (and so the documents) as it was, leaves the one live interval and the
  handle of the next cleanup as they were, so the poller still polls and is not idle and
  no second interval exists; it writes the console line and touches neither the error
  hook nor the toasts; and the next tick makes the calls of a refresh again.
\<close>

theorem failed_refresh_keeps_polling:
  assumes "polling s" and "outcome = TokenRejected e \<or> outcome = RequestRejected e"
  shows "data (poll_tick projectId outcome s) = data s
       \<and> timers (poll_tick projectId outcome s) = timers s
       \<and> pollInterval (poll_tick projectId outcome s) = pollInterval s
       \<and> next_handle (poll_tick projectId outcome s) = next_handle s
       \<and> polling (poll_tick projectId outcome s)
       \<and> \<not> idle (poll_tick projectId outcome s)
       \<and> length (timers (poll_tick projectId outcome s)) = 1
       \<and> console (poll_tick projectId outcome s) = console s @ [''Polling error:'']
       \<and> error (poll_tick projectId outcome s) = error s
       \<and> toasts (poll_tick projectId outcome s) = toasts s
       \<and> calls (poll_tick projectId outcome' (poll_tick projectId outcome s))
           = calls (poll_tick projectId outcome s) @ refresh_calls projectId outcome'"
proof -
  let ?s' = "poll_tick projectId outcome s"
  have t: "?s' = pollCallback projectId outcome s"
    by (rule polling_tick [OF assms(1)])
  have same: "data ?s' = data s" "timers ?s' = timers s" "pollInterval ?s' = pollInterval s"
    "next_handle ?s' = next_handle s" "error ?s' = error s" "toasts ?s' = toasts s"
    "console ?s' = console s @ [''Polling error:'']"
    using assms(2) by (auto simp: t)
  have p: "polling ?s'"
    using assms(1) by (auto simp: polling_def same split: option.splits)
  then have "\<not> idle ?s'" and "length (timers ?s') = 1"
    by (auto simp: polling_def idle_def split: option.splits)
  moreover have "calls (poll_tick projectId outcome' ?s') = calls ?s' @ refresh_calls projectId outcome'"
    by (simp only: polling_tick [OF p] pollCallback_calls)
  ultimately show ?thesis
    using same p by simp
qed

text \<open>The loaded project \<open>project1\<close>; the \<open>get\<close> is answered with status 503.\<close>

theorem failed_refresh_keeps_polling_witness:
  "polling project1
   \<and> documents (data (poll_tick ''p1'' (RequestRejected (Some ''HTTP error! status: 503'')) project1))
       = [doc ''d1'' (Some ''processing'')]
   \<and> timers (poll_tick ''p1'' (RequestRejected (Some ''HTTP error! status: 503'')) project1) = [0]
   \<and> console (poll_tick ''p1'' (RequestRejected (Some ''HTTP error! status: 503'')) project1)
       = [''Polling error:'']
   \<and> calls (poll_tick ''p1'' (RequestResolved [doc ''d1'' (Some ''completed'')])
              (poll_tick ''p1'' (RequestRejected (Some ''HTTP error! status: 503'')) project1))
       = calls (poll_tick ''p1'' (RequestRejected (Some ''HTTP error! status: 503'')) project1)
         @ [GetToken, Get (files_endpoint ''p1'')]"
  using failed_refresh_keeps_polling [of project1 "RequestRejected (Some ''HTTP error! status: 503'')"
          "Some ''HTTP error! status: 503''" "''p1''" "RequestResolved [doc ''d1'' (Some ''completed'')]"]
  by (simp add: project1_eq polling_def bundle1_def)

subsection \<open>Settings\<close>

text \<open>
  C6. \<open>handleDraftSettings(updates)\<close> on loaded settings leaves the settings overridden
  by the updates: a key of the updates has the updates' value, every other key keeps its
  value. While no settings are loaded it leaves \<open>data\<close> as it was and writes the two
  console lines. In both cases the project, the chats and the documents stay, and no
  call, toast, error or timer is touched.
\<close>

theorem updateDraft_merges:
  "(settings (data s) = Some current \<longrightarrow>
      settings (data (handleDraftSettings updates s)) = Some (current ++ updates)
    \<and> (\<forall>k. k \<notin> dom updates \<longrightarrow> (current ++ updates) k = current k)
    \<and> (\<forall>k \<in> dom updates. (current ++ updates) k = updates k))
   \<and> (settings (data s) = None \<longrightarrow>
        data (handleDraftSettings updates s) = data s
      \<and> console (handleDraftSettings updates s)
          = console s @ [''Update local state with draft settings'',
                         ''No existing settings found to update''])
   \<and> project (data (handleDraftSettings updates s)) = project (data s)
   \<and> chats (data (handleDraftSettings updates s)) = chats (data s)
   \<and> documents (data (handleDraftSettings updates s)) = documents (data s)
   \<and> calls (handleDraftSettings updates s) = calls s
   \<and> toasts (handleDraftSettings updates s) = toasts s
   \<and> error (handleDraftSettings updates s) = error s
   \<and> timers (handleDraftSettings updates s) = timers s"
  by (auto simp: handleDraftSettings_def Let_def map_add_dom_app_simps split: option.splits)

text \<open>
  A new \<open>chunk_size\<close> on the loaded project \<open>project1\<close>, and the same update before
  anything was loaded.
\<close>

theorem updateDraft_merges_witness:
  "settings (data project1) = Some settings1
   \<and> settings (data (handleDraftSettings [''chunk_size'' \<mapsto> VNum 1024] project1))
       = Some (settings1 ++ [''chunk_size'' \<mapsto> VNum 1024])
   \<and> (settings1 ++ [''chunk_size'' \<mapsto> VNum 1024]) ''chunk_size'' = Some (VNum 1024)
   \<and> (settings1 ++ [''chunk_size'' \<mapsto> VNum 1024]) ''rag_strategy'' = Some (VStr ''basic'')
   \<and> settings (data (mount :: (unit, unit) project_page)) = None
   \<and> data (handleDraftSettings [''chunk_size'' \<mapsto> VNum 1024] (mount :: (unit, unit) project_page))
       = data mount
   \<and> calls (handleDraftSettings [''chunk_size'' \<mapsto> VNum 1024] project1) = calls project1"
proof -
  have loaded: "settings (data project1) = Some settings1"
    by (simp add: project1_eq bundle1_def)
  have unloaded: "settings (data (mount :: (unit, unit) project_page)) = None"
    by (simp add: mount_def)
  have other: "settings1 ''rag_strategy'' = Some (VStr ''basic'')"
    by (simp add: settings1_def)
  from updateDraft_merges [of project1 settings1 "[''chunk_size'' \<mapsto> VNum 1024]"]
       updateDraft_merges [of "mount :: (unit, unit) project_page" settings1
          "[''chunk_size'' \<mapsto> VNum 1024]"]
  show ?thesis
    by (simp add: loaded unloaded other)
qed





text \<open>
  C10. \<open>handlePublishSettings()\<close> created by a render that holds no settings, or no actor
  identity, only writes its console line: no call is made, the error hook and the toasts
  stay as they were, and \<open>data\<close> is unchanged. Before any settings were loaded the store
  holds none and neither does any render; the second half is the case of a handler
  whose render shows the store.
\<close>

theorem publish_guard:
  "(rendered = None \<or> \<not> truthy userId \<longrightarrow>
      handlePublishSettings userId projectId rendered outcome s
        = s\<lparr>console := console s @ [''Make API call to publish settings'']\<rparr>
    \<and> calls (handlePublishSettings userId projectId rendered outcome s) = calls s
    \<and> error (handlePublishSettings userId projectId rendered outcome s) = error s
    \<and> toasts (handlePublishSettings userId projectId rendered outcome s) = toasts s
    \<and> data (handlePublishSettings userId projectId rendered outcome s) = data s)
   \<and> (settings (data s) = None \<or> \<not> truthy userId \<longrightarrow>
      handlePublishSettings userId projectId (settings (data s)) outcome s
        = s\<lparr>console := console s @ [''Make API call to publish settings'']\<rparr>
    \<and> calls (handlePublishSettings userId projectId (settings (data s)) outcome s) = calls s
    \<and> error (handlePublishSettings userId projectId (settings (data s)) outcome s) = error s
    \<and> toasts (handlePublishSettings userId projectId (settings (data s)) outcome s) = toasts s
    \<and> data (handlePublishSettings userId projectId (settings (data s)) outcome s) = data s)"
  by (auto simp: handlePublishSettings_def Let_def split: option.splits)

text \<open>Publishing before anything was loaded, and publishing without an actor identity.\<close>

theorem publish_guard_witness:
  "settings (data (mount :: (unit, unit) project_page)) = None
   \<and> handlePublishSettings (Some ''user_1'') ''p1'' (settings (data (mount :: (unit, unit) project_page)))
        (RequestResolved ()) (mount :: (unit, unit) project_page)
       = mount\<lparr>console := [''Make API call to publish settings'']\<rparr>
   \<and> \<not> truthy None
   \<and> calls (handlePublishSettings None ''p1'' (settings (data project1)) (RequestResolved ()) project1)
       = calls project1
   \<and> error (handlePublishSettings None ''p1'' (settings (data project1)) (RequestResolved ()) project1)
       = None"
  using publish_guard [of "settings (data (mount :: (unit, unit) project_page))" "Some ''user_1''" "''p1''"
          "RequestResolved ()" "mount :: (unit, unit) project_page"]
        publish_guard [of "settings (data project1)" None "''p1''" "RequestResolved ()" project1]
  by (simp add: mount_def project1_eq)

end
